theory Spec2Isabelle
  imports Complex_Main
begin

section \<open>Strings\<close>

text \<open>
  The server is Python; its strings are sequences of code points. The model uses
  \<^typ>\<open>string\<close> and reads each \<^typ>\<open>char\<close> as one of the code points U+0000 to
  U+00FF. On that range \<^verbatim>\<open>str.isspace\<close> and \<^verbatim>\<open>str.lower\<close> are the
  two functions below.
\<close>

definition isspace :: "char \<Rightarrow> bool" where
  "isspace c = (of_char c \<in> {9, 10, 11, 12, 13, 28, 29, 30, 31, 32, 133, 160 :: nat})"

definition lower_char :: "char \<Rightarrow> char" where
  "lower_char c =
     (let n = (of_char c :: nat)
      in if (65 \<le> n \<and> n \<le> 90) \<or> (192 \<le> n \<and> n \<le> 222 \<and> n \<noteq> 215)
         then char_of (n + 32) else c)"

definition lower :: "string \<Rightarrow> string" where
  "lower s = map lower_char s"

definition lstrip :: "string \<Rightarrow> string" where
  "lstrip s = dropWhile isspace s"

definition rstrip :: "string \<Rightarrow> string" where
  "rstrip s = rev (dropWhile isspace (rev s))"

definition strip :: "string \<Rightarrow> string" where
  "strip s = rstrip (lstrip s)"

section \<open>Language mapping helpers\<close>

text \<open>A dict literal is an association list; \<^verbatim>\<open>d.get(k, default)\<close> never raises.\<close>

definition dict_get :: "(string \<times> string) list \<Rightarrow> string \<Rightarrow> string \<Rightarrow> string" where
  "dict_get d k dflt = (case map_of d k of Some v \<Rightarrow> v | None \<Rightarrow> dflt)"

definition SR_LANG_MAP :: "(string \<times> string) list" where
  "SR_LANG_MAP =
     [(''en'', ''en-US''), (''hi'', ''hi-IN''), (''gu'', ''gu-IN''), (''cn'', ''zh-CN''),
      (''zh'', ''zh-CN''), (''zh-cn'', ''zh-CN''), (''zh-CN'', ''zh-CN''), (''ko'', ''ko-KR'')]"

definition TR_LANG_MAP :: "(string \<times> string) list" where
  "TR_LANG_MAP =
     [(''en'', ''en''), (''hi'', ''hi''), (''gu'', ''gu''), (''cn'', ''zh-CN''),
      (''zh'', ''zh-CN''), (''zh-cn'', ''zh-CN''), (''zh-CN'', ''zh-CN''), (''ko'', ''ko'')]"

text \<open>
  \<^verbatim>\<open>c = (code or "").strip()\<close>: on a string, \<^verbatim>\<open>code or ""\<close> is the string
  itself. The inner \<^verbatim>\<open>get\<close> is the default of the outer one.
\<close>

definition normalize_sr_lang :: "string \<Rightarrow> string" where
  "normalize_sr_lang code =
     (let c = strip code
      in dict_get SR_LANG_MAP c (dict_get SR_LANG_MAP (lower c) ''en-US''))"

definition normalize_tr_lang :: "string \<Rightarrow> string" where
  "normalize_tr_lang code =
     (let c = strip code
      in dict_get TR_LANG_MAP c (dict_get TR_LANG_MAP (lower c) ''en''))"

section \<open>JSON values and exceptions\<close>

text \<open>
  \<^verbatim>\<open>request.get_json\<close> hands \<open>start\<close> whatever JSON the request holds, and
  \<^verbatim>\<open>data.get\<close> passes a value of any type on. A JSON value is the Python value it
  is decoded to: \<open>JNull\<close> is \<^verbatim>\<open>None\<close>.
\<close>

datatype json =
  JNull
| JBool bool
| JNumber real
| JString string
| JArray "json list"
| JObject "(string \<times> json) list"

text \<open>Python's truth value of a decoded JSON value.\<close>

fun truthy :: "json \<Rightarrow> bool" where
  "truthy JNull = False"
| "truthy (JBool b) = b"
| "truthy (JNumber x) = (x \<noteq> 0)"
| "truthy (JString s) = (s \<noteq> [])"
| "truthy (JArray xs) = (xs \<noteq> [])"
| "truthy (JObject kvs) = (kvs \<noteq> [])"

text \<open>The exceptions the model tells apart.\<close>

datatype exn = AttributeError | ValueError | OSError | RuntimeError

text \<open>
  \<^verbatim>\<open>(code or "")\<close> as the receiver of \<^verbatim>\<open>.strip()\<close>, the first thing both
  normalizers do: the string itself, the empty string for a value that counts as false,
  and an \<^verbatim>\<open>AttributeError\<close> for any other value, which has no \<^verbatim>\<open>strip\<close>.
\<close>

definition or_empty :: "json \<Rightarrow> json" where
  "or_empty code = (if truthy code then code else JString [])"

definition code_or_empty :: "json \<Rightarrow> exn + string" where
  "code_or_empty code = (case or_empty code of JString c \<Rightarrow> Inr c | _ \<Rightarrow> Inl AttributeError)"

section \<open>Global state\<close>

text \<open>
  The module-level dict \<^verbatim>\<open>state\<close>, guarded by \<^verbatim>\<open>state_lock\<close>. A thread and
  an \<^verbatim>\<open>Event\<close> are objects; the model names each by a number.
\<close>

record state =
  running :: bool
  thread :: "nat option"
  stop_event :: "nat option"
  translated_text :: string
  source_lang :: json
  target_lang :: json

definition initial_state :: state where
  "initial_state =
     \<lparr>running = False, thread = None, stop_event = None,
      translated_text = ''Waiting for speech...'', source_lang = JNull, target_lang = JNull\<rparr>"

section \<open>Background worker\<close>

text \<open>
  What the microphone, the recognizer and the translator answer is not decided by the
  program: each call's outcome is an argument. An exception carries its message.
\<close>

datatype init_result = MicrophoneError string | AmbientNoiseError string | Initialized

datatype listen_result = WaitTimeoutError | ListenException string | Audio

datatype recognize_result =
  UnknownValueError | RequestError string | RecognizeException string | Transcript string

text \<open>
  \<^verbatim>\<open>GoogleTranslator(source=a, target=b).translate(text)\<close>: \<open>Inl\<close> is the
  exception's message, \<open>Inr\<close> the translation.
\<close>

type_synonym translator = "string \<Rightarrow> string \<Rightarrow> string \<Rightarrow> string + string"

text \<open>The two handlers of a failed initialisation (lines 95-99 and 111-115).\<close>

definition init_failed :: "string \<Rightarrow> state \<Rightarrow> state" where
  "init_failed msg s =
     s\<lparr>translated_text := msg, running := False, thread := None, stop_event := None\<rparr>"

text \<open>Line 119, the text published once calibration is done.\<close>

definition listening_text :: "string \<Rightarrow> string \<Rightarrow> string \<Rightarrow> string" where
  "listening_text sr_locale tr_source tr_target =
     ''Listening... (SR: '' @ sr_locale @ '', TR: '' @ tr_source @ '' -> '' @ tr_target @ '')''"

text \<open>
  Lines 154-160: the translation with the given source, on an exception the one with
  source \<^verbatim>\<open>auto\<close>, on an exception of that one the transcript and the message.
\<close>

definition translate_block :: "translator \<Rightarrow> string \<Rightarrow> string \<Rightarrow> string \<Rightarrow> string" where
  "translate_block gt tr_source tr_target transcript =
     (case gt tr_source tr_target transcript of
        Inr translated \<Rightarrow> translated
      | Inl _ \<Rightarrow>
          (case gt ''auto'' tr_target transcript of
             Inr translated \<Rightarrow> translated
           | Inl e \<Rightarrow> transcript @ '' (translation unavailable: '' @ e @ '')''))"

text \<open>
  One pass through the body of the \<^verbatim>\<open>while\<close> loop (lines 122-165). The result is
  the state and the time slept in that pass, in milliseconds. A pass writes the state at
  most once, under the lock.
\<close>

definition loop_body ::
  "translator \<Rightarrow> listen_result \<Rightarrow> (string \<Rightarrow> recognize_result) \<Rightarrow>
   string \<Rightarrow> string \<Rightarrow> string \<Rightarrow> state \<Rightarrow> state \<times> nat" where
  "loop_body gt listened recognize_google sr_locale tr_source tr_target s =
     (case listened of
        WaitTimeoutError \<Rightarrow> (s, 0)
      | ListenException e \<Rightarrow> (s\<lparr>translated_text := ''Mic capture error: '' @ e\<rparr>, 300)
      | Audio \<Rightarrow>
          (case recognize_google sr_locale of
             UnknownValueError \<Rightarrow> (s, 0)
           | RequestError e \<Rightarrow>
               (s\<lparr>translated_text := ''Speech recognition API error: '' @ e\<rparr>, 1000)
           | RecognizeException e \<Rightarrow>
               (s\<lparr>translated_text := ''Unexpected SR error: '' @ e\<rparr>, 500)
           | Transcript transcript \<Rightarrow>
               if transcript = [] then (s, 0)
               else (s\<lparr>translated_text :=
                          translate_block gt tr_source tr_target transcript\<rparr>, 50)))"

text \<open>Lines 168-173, the exit after the loop.\<close>

definition clean_exit :: "state \<Rightarrow> state" where
  "clean_exit s =
     (let s' = s\<lparr>running := False, thread := None, stop_event := None\<rparr>
      in if translated_text s' = [] then s'\<lparr>translated_text := ''Stopped.''\<rparr> else s')"

text \<open>
  A running \<^verbatim>\<open>listen_and_translate\<close>: its three arguments and where it stands.
  \<open>Starting\<close> is before line 118, \<open>Loop_head\<close> is at the test of line 121,
  \<open>In_body\<close> is inside the loop body, the test passed.
\<close>

datatype pc = Starting | Loop_head | In_body

record worker =
  w_source :: json
  w_target :: json
  w_event :: nat
  w_pc :: pc

text \<open>
  Lines 102-104: the three codes the worker computes from its arguments once the
  microphone is open. They stand outside both \<^verbatim>\<open>try\<close> blocks: an argument that
  is not a string (and does not count as false) ends the thread by an uncaught
  \<^verbatim>\<open>AttributeError\<close>.
\<close>

definition worker_locals :: "worker \<Rightarrow> exn + string \<times> string \<times> string" where
  "worker_locals w =
     (case code_or_empty (w_source w) of
        Inl e \<Rightarrow> Inl e
      | Inr source \<Rightarrow>
          (case code_or_empty (w_target w) of
             Inl e \<Rightarrow> Inl e
           | Inr target \<Rightarrow>
               Inr (normalize_sr_lang source, normalize_tr_lang source, normalize_tr_lang target)))"

text \<open>
  The steps of a worker, each with one access to the shared state at most:
  \<open>Init\<close> runs lines 89-119, \<open>Test\<close> evaluates the loop condition (and runs the
  exit when the event is set), \<open>Body\<close> runs one pass of the body.
\<close>

datatype wstep =
  Init init_result
| Test
| Body translator listen_result "string \<Rightarrow> recognize_result"

text \<open>
  \<open>run_step evs w a s\<close>: worker \<open>w\<close> takes step \<open>a\<close> on state \<open>s\<close>, when \<open>evs\<close> are
  the events that are set. The result is the state and the worker's next position,
  \<open>None\<close> when the thread has ended: by a return of the function, which has cleared
  the lifecycle fields, or by the uncaught exception of lines 102-104, which has
  written nothing. A step that does not fit the position changes nothing; a worker whose
  codes could not be computed never stands in the loop.
\<close>

fun run_step :: "nat list \<Rightarrow> worker \<Rightarrow> wstep \<Rightarrow> state \<Rightarrow> state \<times> pc option" where
  "run_step evs w (Init r) s =
     (if w_pc w \<noteq> Starting then (s, Some (w_pc w))
      else case r of
        MicrophoneError e \<Rightarrow> (init_failed (''Microphone error: '' @ e) s, None)
      | AmbientNoiseError e \<Rightarrow>
          (case worker_locals w of
             Inl _ \<Rightarrow> (s, None)
           | Inr _ \<Rightarrow> (init_failed (''Audio initialization error: '' @ e) s, None))
      | Initialized \<Rightarrow>
          (case worker_locals w of
             Inl _ \<Rightarrow> (s, None)
           | Inr (sr_locale, tr_source, tr_target) \<Rightarrow>
               (s\<lparr>translated_text := listening_text sr_locale tr_source tr_target\<rparr>,
                Some Loop_head)))"
| "run_step evs w Test s =
     (if w_pc w \<noteq> Loop_head then (s, Some (w_pc w))
      else if w_event w \<in> set evs then (clean_exit s, None)
      else (s, Some In_body))"
| "run_step evs w (Body gt listened recognize_google) s =
     (if w_pc w \<noteq> In_body then (s, Some (w_pc w))
      else case worker_locals w of
        Inl _ \<Rightarrow> (s, Some (w_pc w))
      | Inr (sr_locale, tr_source, tr_target) \<Rightarrow>
          (fst (loop_body gt listened recognize_google sr_locale tr_source tr_target s),
           Some Loop_head))"

section \<open>The process: shared state and threads\<close>

text \<open>
  The process is the shared state, the worker threads that have not returned yet (each
  under its number), the events on which \<^verbatim>\<open>set()\<close> was called (an event is never
  cleared), and the number the next thread and event will get.
\<close>

record system =
  shared :: state
  workers :: "(nat \<times> worker) list"
  events_set :: "nat list"
  next_id :: nat

definition initial_system :: system where
  "initial_system = \<lparr>shared = initial_state, workers = [], events_set = [], next_id = 0\<rparr>"

text \<open>
  Worker \<open>tid\<close> takes a step: a worker that returns leaves the live workers, one that
  goes on moves to its next position. A thread that is not live takes no step.
\<close>

definition worker_step :: "nat \<Rightarrow> wstep \<Rightarrow> system \<Rightarrow> system" where
  "worker_step tid a sys =
     (case map_of (workers sys) tid of
        None \<Rightarrow> sys
      | Some w \<Rightarrow>
          (case run_step (events_set sys) w a (shared sys) of
             (s', None) \<Rightarrow>
               sys\<lparr>shared := s', workers := filter (\<lambda>p. fst p \<noteq> tid) (workers sys)\<rparr>
           | (s', Some p) \<Rightarrow>
               sys\<lparr>shared := s',
                   workers := map (\<lambda>q. if fst q = tid then (tid, (snd q)\<lparr>w_pc := p\<rparr>) else q)
                                (workers sys)\<rparr>))"

type_synonym schedule = "(nat \<times> wstep) list"

fun run_workers :: "schedule \<Rightarrow> system \<Rightarrow> system" where
  "run_workers [] sys = sys"
| "run_workers (j # js) sys = run_workers js (worker_step (fst j) (snd j) sys)"

section \<open>API routes\<close>

text \<open>
  The JSON bodies of the three routes: \<open>message\<close> with \<open>translatedText\<close>, \<open>message\<close>
  alone, and the four fields of \<open>status\<close>. A response is a body and its HTTP status.
\<close>

datatype body =
  Message_text string string
| Message string
| Status_json bool string json json

type_synonym response = "body \<times> nat"

text \<open>
  \<^verbatim>\<open>data.get("sourceLang", "en")\<close>: an absent key is \<open>None\<close>, a present one
  gives its value, of whatever type.
\<close>

definition get_default :: "json option \<Rightarrow> json \<Rightarrow> json" where
  "get_default v dflt = (case v of Some x \<Rightarrow> x | None \<Rightarrow> dflt)"

text \<open>
  \<open>start\<close>: the block under the lock is one step. The reply of line 204 reads the text
  after the lock is released: \<open>js\<close> are the steps the workers take in between. The
  request body is a JSON object, and the operating system starts the thread.
\<close>

definition start ::
  "json option \<Rightarrow> json option \<Rightarrow> schedule \<Rightarrow> system \<Rightarrow> system \<times> response" where
  "start sourceLang targetLang js sys =
     (let s = shared sys;
          source = get_default sourceLang (JString ''en'');
          target = get_default targetLang (JString ''en'')
      in if running s
         then (sys, (Message_text ''Already running'' (translated_text s), 200))
         else
           let n = next_id sys;
               w = \<lparr>w_source = source, w_target = target, w_event = n, w_pc = Starting\<rparr>;
               sys1 = sys\<lparr>shared := s\<lparr>running := True, thread := Some n, stop_event := Some n,
                                        source_lang := source, target_lang := target,
                                        translated_text := ''Starting speech recognition...''\<rparr>,
                         workers := workers sys @ [(n, w)],
                         next_id := Suc n\<rparr>;
               sys2 = run_workers js sys1
           in (sys2, (Message_text ''Listening and translating...''
                        (translated_text (shared sys2)), 200)))"

text \<open>
  \<open>stop\<close> takes the lock twice. \<open>js1\<close> are the steps the workers take between the
  first block and \<^verbatim>\<open>stop_event.set()\<close>, \<open>js2\<close> the steps they take from there to
  the second block, the wait of \<^verbatim>\<open>worker.join(timeout=5)\<close> included. The join
  only waits: a worker that ends in time has run its exit in \<open>js2\<close>, one that does not
  is still among the workers when the second block runs.
\<close>

definition set_event :: "nat option \<Rightarrow> system \<Rightarrow> system" where
  "set_event ev sys =
     (case ev of None \<Rightarrow> sys | Some e \<Rightarrow> sys\<lparr>events_set := e # events_set sys\<rparr>)"

definition stop :: "schedule \<Rightarrow> schedule \<Rightarrow> system \<Rightarrow> system \<times> response" where
  "stop js1 js2 sys =
     (if \<not> running (shared sys) then (sys, (Message ''Not running'', 200))
      else
        let ev = stop_event (shared sys);
            sys1 = run_workers js1 sys;
            sys2 = set_event ev sys1;
            sys3 = run_workers js2 sys2;
            sys4 = sys3\<lparr>shared := (shared sys3)\<lparr>running := False, thread := None,
                                                 stop_event := None,
                                                 translated_text := ''Stopped.''\<rparr>\<rparr>
        in (sys4, (Message ''Stopped.'', 200)))"

definition status :: "system \<Rightarrow> response" where
  "status sys =
     (let s = shared sys
      in (Status_json (running s) (translated_text s) (source_lang s) (target_lang s), 200))"

text \<open>
  A history of the process. As in the spec's scheduling model, one control-plane context
  handles the requests one at a time; the worker steps that fall inside a request are
  that request's schedules, those between requests are \<open>Work\<close> actions.
\<close>

datatype action =
  Start "json option" "json option" schedule
| Stop schedule schedule
| Status
| Work nat wstep

fun perform :: "action \<Rightarrow> system \<Rightarrow> system" where
  "perform (Start a b js) sys = fst (start a b js sys)"
| "perform (Stop js1 js2) sys = fst (stop js1 js2 sys)"
| "perform Status sys = sys"
| "perform (Work tid a) sys = worker_step tid a sys"

fun run :: "action list \<Rightarrow> system \<Rightarrow> system" where
  "run [] sys = sys"
| "run (a # as) sys = run as (perform a sys)"

section \<open>Frontend routes\<close>

text \<open>
  An absolute POSIX path is the list of its components; \<open>[]\<close> is the file system's
  root. \<open>split_slash\<close> is \<^verbatim>\<open>s.split("/")\<close>.
\<close>

type_synonym path = "string list"

fun split_slash :: "string \<Rightarrow> string list" where
  "split_slash [] = [[]]"
| "split_slash (c # cs) =
     (if c = CHR ''/'' then [] # split_slash cs
      else case split_slash cs of
             [] \<Rightarrow> [[c]]
           | x # xs \<Rightarrow> (c # x) # xs)"

text \<open>The components pathlib keeps of a string: empty ones and \<^verbatim>\<open>.\<close> are dropped.\<close>

definition parts :: "string \<Rightarrow> string list" where
  "parts s = filter (\<lambda>c. c \<noteq> [] \<and> c \<noteq> ''.'') (split_slash s)"

text \<open>\<^verbatim>\<open>FRONTEND_DIR / filename\<close>: an absolute right operand replaces the left one.\<close>

definition joinpath :: "path \<Rightarrow> string \<Rightarrow> path" where
  "joinpath dir filename =
     (if filename \<noteq> [] \<and> hd filename = CHR ''/'' then parts filename
      else dir @ parts filename)"

text \<open>
  \<^verbatim>\<open>target.relative_to(FRONTEND_DIR)\<close> raises \<^verbatim>\<open>ValueError\<close> unless the
  directory's components are the first components of the target.
\<close>

definition relative_to :: "path \<Rightarrow> path \<Rightarrow> bool" where
  "relative_to target dir = (take (length dir) target = dir)"

text \<open>
  \<^verbatim>\<open>Path.suffix\<close>: with \<open>i\<close> the index of the last dot of the final component,
  the component from \<open>i\<close> on when \<open>0 < i < len(name) - 1\<close>, the empty string otherwise.
\<close>

definition rfind_dot :: "string \<Rightarrow> nat option" where
  "rfind_dot name =
     (if CHR ''.'' \<in> set name
      then Some (length name - Suc (length (takeWhile (\<lambda>c. c \<noteq> CHR ''.'') (rev name))))
      else None)"

definition suffix :: "path \<Rightarrow> string" where
  "suffix p =
     (let name = (if p = [] then [] else last p)
      in case rfind_dot name of
           None \<Rightarrow> []
         | Some i \<Rightarrow> if 0 < i \<and> Suc i < length name then drop i name else [])"

definition ALLOWED_STATIC_EXTS :: "string list" where
  "ALLOWED_STATIC_EXTS =
     [''.css'', ''.js'', ''.mjs'', ''.map'',
      ''.png'', ''.jpg'', ''.jpeg'', ''.gif'', ''.svg'', ''.webp'', ''.ico'',
      ''.woff'', ''.woff2'', ''.ttf'', ''.otf'']"

text \<open>
  What the route answers: \<^verbatim>\<open>abort(code)\<close>; a file that Flask opens at a path and
  sends (the operating system follows the links in that path); or an exception that
  leaves the view, which Flask answers with status 500.
\<close>

datatype reply = Abort nat | Send_file path | Uncaught exn

text \<open>
  The file system is two parameters of the route: \<open>resolve\<close> is \<^verbatim>\<open>Path.resolve()\<close>
  and \<open>is_file\<close> is \<^verbatim>\<open>Path.is_file()\<close>, each on an absolute path, and each may
  raise (a name with a NUL byte, a name that is too long, a loop of links).
\<close>

text \<open>
  Flask's \<^verbatim>\<open>send_from_directory(directory, filename)\<close>, library code, as Werkzeug
  documents it on POSIX: \<^verbatim>\<open>safe_join\<close> normalises the raw name as text
  (\<^verbatim>\<open>posixpath.normpath\<close>: \<^verbatim>\<open>..\<close> cancels the component before it, whatever
  that is) and refuses an absolute name and one that starts with \<^verbatim>\<open>..\<close>; a joined
  path that is not a regular file is answered 404; otherwise that path is opened and sent.
\<close>

fun normpath_from :: "string list \<Rightarrow> string list \<Rightarrow> string list" where
  "normpath_from acc [] = acc"
| "normpath_from acc (c # cs) =
     (if c = [] \<or> c = ''.'' then normpath_from acc cs
      else if c = ''..'' \<and> acc \<noteq> [] \<and> last acc \<noteq> ''..'' then normpath_from (butlast acc) cs
      else normpath_from (acc @ [c]) cs)"

definition safe_join :: "path \<Rightarrow> string \<Rightarrow> path option" where
  "safe_join directory filename =
     (let comps = normpath_from [] (split_slash filename)
      in if (filename \<noteq> [] \<and> hd filename = CHR ''/'') \<or> (comps \<noteq> [] \<and> hd comps = ''..'')
         then None
         else Some (directory @ comps))"

definition send_from_directory :: "(path \<Rightarrow> exn + bool) \<Rightarrow> path \<Rightarrow> string \<Rightarrow> reply" where
  "send_from_directory is_file directory filename =
     (case safe_join directory filename of
        None \<Rightarrow> Abort 404
      | Some p \<Rightarrow>
          (case is_file p of
             Inl e \<Rightarrow> Uncaught e
           | Inr regular \<Rightarrow> if regular then Send_file p else Abort 404))"

text \<open>
  The route. \<^verbatim>\<open>resolve()\<close> (line 265) stands before the \<^verbatim>\<open>try\<close>, and
  \<^verbatim>\<open>is_file()\<close> (line 272) after it: what they raise is not caught. The
  \<^verbatim>\<open>ValueError\<close> of \<^verbatim>\<open>relative_to\<close> is caught and answered 403. Line 273 hands
  the raw \<open>filename\<close>, not the resolved target, to \<^verbatim>\<open>send_from_directory\<close>.
\<close>

definition serve_static_file ::
  "(path \<Rightarrow> exn + path) \<Rightarrow> (path \<Rightarrow> exn + bool) \<Rightarrow> path \<Rightarrow> string \<Rightarrow> reply" where
  "serve_static_file resolve is_file FRONTEND_DIR filename =
     (if filename \<in> {''start'', ''stop'', ''status''} then Abort 404
      else
        case resolve (joinpath FRONTEND_DIR filename) of
          Inl e \<Rightarrow> Uncaught e
        | Inr target \<Rightarrow>
            if \<not> relative_to target FRONTEND_DIR then Abort 403
            else
              case is_file target of
                Inl e \<Rightarrow> Uncaught e
              | Inr regular \<Rightarrow>
                  if regular \<and> suffix target \<in> set ALLOWED_STATIC_EXTS
                  then send_from_directory is_file FRONTEND_DIR filename
                  else Abort 404)"

text \<open>
  A file system for the examples: a table of symbolic links, from the path of a link to
  its resolved target. Resolution walks the components from the root: \<^verbatim>\<open>..\<close> goes to
  the parent (the root is its own parent), a link is replaced by its target. A NUL byte
  in a name raises \<^verbatim>\<open>ValueError\<close>.
\<close>

fun resolve_from :: "(path \<Rightarrow> path option) \<Rightarrow> path \<Rightarrow> string list \<Rightarrow> path" where
  "resolve_from links cur [] = cur"
| "resolve_from links cur (c # cs) =
     (if c = ''..'' then resolve_from links (butlast cur) cs
      else case links (cur @ [c]) of
             Some t \<Rightarrow> resolve_from links t cs
           | None \<Rightarrow> resolve_from links (cur @ [c]) cs)"

definition has_nul :: "path \<Rightarrow> bool" where
  "has_nul p = list_ex (\<lambda>c. CHR 0x00 \<in> set c) p"

definition resolve_links :: "(path \<Rightarrow> path option) \<Rightarrow> path \<Rightarrow> exn + path" where
  "resolve_links links p = (if has_nul p then Inl ValueError else Inr (resolve_from links [] p))"

section \<open>Predicates on the process\<close>






section \<open>Example collaborators, files and histories\<close>

definition stub_translate :: translator where
  "stub_translate a b t = Inr ''namaste''"

definition fallback_translate :: translator where
  "fallback_translate a b t = (if a = ''auto'' then Inr ''namaste'' else Inl ''no such pair'')"

definition failing_translate :: translator where
  "failing_translate a b t = Inl ''offline''"

definition empty_translate :: translator where
  "empty_translate a b t = Inr []"

definition stub_recognize :: "string \<Rightarrow> recognize_result" where
  "stub_recognize language = Transcript ''hello''"

definition silent_recognize :: "string \<Rightarrow> recognize_result" where
  "silent_recognize language = UnknownValueError"

text \<open>A worker started for \<open>en\<close> to \<open>hi\<close> that has published its listening text.\<close>

definition listening_system :: system where
  "listening_system =
     run [Start (Some (JString ''en'')) (Some (JString ''hi'')) [], Work 0 (Init Initialized)]
       initial_system"

text \<open>The same worker inside the loop body, the test of line 121 passed.\<close>

definition capturing_system :: system where
  "capturing_system = worker_step 0 Test listening_system"

text \<open>The same worker back at the loop test, an empty translation published, its event set.\<close>

definition emptied_system :: system where
  "emptied_system =
     set_event (Some 0) (worker_step 0 (Body empty_translate Audio stub_recognize) capturing_system)"




text \<open>The \<open>stop\<close> of \<open>orphan_history\<close>; afterwards the worker finishes its pass.\<close>

definition late_publish_history :: "action list" where
  "late_publish_history =
     [Start (Some (JString ''en'')) (Some (JString ''hi'')) [], Work 0 (Init Initialized),
      Work 0 Test, Stop [] [], Work 0 (Body stub_translate Audio stub_recognize)]"

definition restart_history :: "action list" where
  "restart_history =
     [Start (Some (JString ''en'')) (Some (JString ''hi'')) [],
      Start (Some (JString ''gu'')) (Some (JString ''ko'')) [], Stop [] []]"

text \<open>
  A file system: the project root is \<^verbatim>\<open>/srv/app\<close>, it holds the regular file
  \<^verbatim>\<open>css/site.css\<close> and a symbolic link \<^verbatim>\<open>start\<close> to \<^verbatim>\<open>/etc/passwd\<close>.
\<close>

definition example_root :: path where
  "example_root = [''srv'', ''app'']"

definition example_links :: "path \<Rightarrow> path option" where
  "example_links p = (if p = [''srv'', ''app'', ''start''] then Some [''etc'', ''passwd''] else None)"

definition example_is_file :: "path \<Rightarrow> exn + bool" where
  "example_is_file p =
     Inr (p = [''etc'', ''passwd''] \<or> p = [''srv'', ''app'', ''css'', ''site.css''])"

text \<open>
  Another one under the same root: \<^verbatim>\<open>link\<close> is a symbolic link to the directory
  \<^verbatim>\<open>/srv/app/sub/deep\<close>, \<^verbatim>\<open>sub/secret.css\<close> is a regular file, and
  \<^verbatim>\<open>secret.css\<close> in the root is a symbolic link to \<^verbatim>\<open>/etc/passwd\<close>.
  \<^verbatim>\<open>is_file\<close> follows links.
\<close>

definition detour_links :: "path \<Rightarrow> path option" where
  "detour_links p =
     (if p = [''srv'', ''app'', ''link''] then Some [''srv'', ''app'', ''sub'', ''deep'']
      else if p = [''srv'', ''app'', ''secret.css''] then Some [''etc'', ''passwd'']
      else None)"

definition detour_is_file :: "path \<Rightarrow> exn + bool" where
  "detour_is_file p =
     Inr (p = [''etc'', ''passwd''] \<or> p = [''srv'', ''app'', ''secret.css''] \<or>
          p = [''srv'', ''app'', ''sub'', ''secret.css''])"

text \<open>A file system in which every name is too long for \<^verbatim>\<open>is_file\<close>.\<close>

definition failing_is_file :: "path \<Rightarrow> exn + bool" where
  "failing_is_file p = Inl OSError"

section \<open>Evaluation of the model on concrete inputs\<close>

lemmas string_eval =
  strip_def lstrip_def rstrip_def isspace_def lower_def lower_char_def char_of_eq_iff

lemmas lang_eval =
  normalize_sr_lang_def normalize_tr_lang_def dict_get_def SR_LANG_MAP_def TR_LANG_MAP_def

lemmas system_eval =
  initial_system_def initial_state_def start_def stop_def status_def set_event_def
  worker_step_def get_default_def Let_def clean_exit_def init_failed_def loop_body_def
  translate_block_def listening_text_def

section \<open>The language mapping helpers\<close>

text \<open>
  C7, as stated, fails: the lookups are made on the input with its surrounding whitespace
  stripped. The input \<open>'' hi ''\<close> is not a key of either table, nor is its lowercase
  form, and yet the results are \<open>''hi-IN''\<close> and \<open>''hi''\<close>, not the defaults.
\<close>

theorem normalize_lang_unstripped_counterexample:
  "map_of SR_LANG_MAP '' hi '' = None \<and> map_of SR_LANG_MAP (lower '' hi '') = None \<and>
   map_of TR_LANG_MAP '' hi '' = None \<and> map_of TR_LANG_MAP (lower '' hi '') = None \<and>
   normalize_sr_lang '' hi '' = ''hi-IN'' \<and> normalize_tr_lang '' hi '' = ''hi''"
  by (simp add: lang_eval string_eval)

text \<open>
  C7, amended: with \<open>c\<close> the input stripped of surrounding whitespace, the result is
  the table's entry for \<open>c\<close> when there is one; otherwise the entry for \<open>c\<close> in
  lowercase when there is one; otherwise \<open>''en-US''\<close> for recognition and \<open>''en''\<close> for
  translation. Both functions are total.
\<close>

theorem normalize_lang_lookup_order:
  "(map_of SR_LANG_MAP (strip code) = Some v \<longrightarrow> normalize_sr_lang code = v) \<and>
   (map_of SR_LANG_MAP (strip code) = None \<and> map_of SR_LANG_MAP (lower (strip code)) = Some v
      \<longrightarrow> normalize_sr_lang code = v) \<and>
   (map_of SR_LANG_MAP (strip code) = None \<and> map_of SR_LANG_MAP (lower (strip code)) = None
      \<longrightarrow> normalize_sr_lang code = ''en-US'') \<and>
   (map_of TR_LANG_MAP (strip code) = Some u \<longrightarrow> normalize_tr_lang code = u) \<and>
   (map_of TR_LANG_MAP (strip code) = None \<and> map_of TR_LANG_MAP (lower (strip code)) = Some u
      \<longrightarrow> normalize_tr_lang code = u) \<and>
   (map_of TR_LANG_MAP (strip code) = None \<and> map_of TR_LANG_MAP (lower (strip code)) = None
      \<longrightarrow> normalize_tr_lang code = ''en'')"
  by (simp add: normalize_sr_lang_def normalize_tr_lang_def dict_get_def)

theorem normalize_lang_lookup_order_witness:
  "map_of SR_LANG_MAP (strip ''zh-CN'') = Some ''zh-CN'' \<and>
   normalize_sr_lang ''zh-CN'' = ''zh-CN'' \<and> normalize_tr_lang ''zh-CN'' = ''zh-CN'' \<and>
   map_of SR_LANG_MAP (strip ''GU'') = None \<and>
   map_of SR_LANG_MAP (lower (strip ''GU'')) = Some ''gu-IN'' \<and>
   normalize_sr_lang ''GU'' = ''gu-IN'' \<and> normalize_tr_lang ''GU'' = ''gu'' \<and>
   map_of SR_LANG_MAP (strip ''fr'') = None \<and> map_of SR_LANG_MAP (lower (strip ''fr'')) = None \<and>
   map_of TR_LANG_MAP (strip ''fr'') = None \<and> map_of TR_LANG_MAP (lower (strip ''fr'')) = None \<and>
   normalize_sr_lang ''fr'' = ''en-US'' \<and> normalize_tr_lang ''fr'' = ''en''"
proof -
  have exact: "map_of SR_LANG_MAP (strip ''zh-CN'') = Some ''zh-CN''"
    and exact': "map_of TR_LANG_MAP (strip ''zh-CN'') = Some ''zh-CN''"
    by (simp_all add: SR_LANG_MAP_def TR_LANG_MAP_def string_eval)
  have retry: "map_of SR_LANG_MAP (strip ''GU'') = None \<and>
      map_of SR_LANG_MAP (lower (strip ''GU'')) = Some ''gu-IN''"
    and retry': "map_of TR_LANG_MAP (strip ''GU'') = None \<and>
      map_of TR_LANG_MAP (lower (strip ''GU'')) = Some ''gu''"
    by (simp_all add: SR_LANG_MAP_def TR_LANG_MAP_def string_eval)
  have absent: "map_of SR_LANG_MAP (strip ''fr'') = None \<and>
      map_of SR_LANG_MAP (lower (strip ''fr'')) = None"
    and absent': "map_of TR_LANG_MAP (strip ''fr'') = None \<and>
      map_of TR_LANG_MAP (lower (strip ''fr'')) = None"
    by (simp_all add: SR_LANG_MAP_def TR_LANG_MAP_def string_eval)
  from exact exact' retry retry' absent absent'
    normalize_lang_lookup_order [of "''zh-CN''" "''zh-CN''" "''zh-CN''"]
    normalize_lang_lookup_order [of "''GU''" "''gu-IN''" "''gu''"]
    normalize_lang_lookup_order [of "''fr''"]
  show ?thesis by blast
qed

section \<open>Facts about worker steps\<close>

lemma map_of_set_pc:
  "map_of (map (\<lambda>q. if fst q = tid then (tid, (snd q)\<lparr>w_pc := p\<rparr>) else q) ws) k =
     (if k = tid then map_option (\<lambda>w. w\<lparr>w_pc := p\<rparr>) (map_of ws tid) else map_of ws k)"
  by (induction ws) auto

lemma map_of_filter_ne:
  "map_of (filter (\<lambda>p. fst p \<noteq> tid) ws) k = (if k = tid then None else map_of ws k)"
  by (induction ws) auto

lemma code_or_empty_string: "code_or_empty (JString s) = Inr s"
  by (simp add: code_or_empty_def or_empty_def)


text \<open>A step after which the worker goes on writes nothing but the text.\<close>

lemma run_step_continues:
  "run_step evs w a s = (s', Some p) \<Longrightarrow>
     running s' = running s \<and> thread s' = thread s \<and> stop_event s' = stop_event s \<and>
     source_lang s' = source_lang s \<and> target_lang s' = target_lang s"
  by (cases a) (auto simp: loop_body_def split: if_splits init_result.splits sum.splits
      prod.splits listen_result.splits recognize_result.splits)

text \<open>
  A step with which the thread ends has either written nothing or cleared the three
  lifecycle fields.
\<close>

lemma run_step_ends:
  "run_step evs w a s = (s', None) \<Longrightarrow>
     (s' = s \<or> (\<not> running s' \<and> thread s' = None \<and> stop_event s' = None)) \<and>
     source_lang s' = source_lang s \<and> target_lang s' = target_lang s"
  by (cases a) (auto simp: init_failed_def clean_exit_def Let_def
      split: if_splits init_result.splits sum.splits prod.splits)


lemma worker_step_events: "events_set (worker_step tid a sys) = events_set sys"
  by (simp add: worker_step_def split: option.splits prod.splits)

lemma worker_step_langs:
  "source_lang (shared (worker_step tid a sys)) = source_lang (shared sys) \<and>
   target_lang (shared (worker_step tid a sys)) = target_lang (shared sys)"
  by (auto simp: worker_step_def split: option.splits prod.splits
      dest: run_step_continues run_step_ends)

lemma worker_step_not_running:
  "\<not> running (shared sys) \<Longrightarrow> \<not> running (shared (worker_step tid a sys))"
  by (auto simp: worker_step_def split: option.splits prod.splits
      dest: run_step_continues run_step_ends)







lemma run_workers_events: "events_set (run_workers js sys) = events_set sys"
  by (induction js arbitrary: sys) (simp_all add: worker_step_events)

lemma run_workers_langs:
  "source_lang (shared (run_workers js sys)) = source_lang (shared sys) \<and>
   target_lang (shared (run_workers js sys)) = target_lang (shared sys)"
  by (induction js arbitrary: sys) (simp_all add: worker_step_langs)

lemma run_workers_not_running:
  "\<not> running (shared sys) \<Longrightarrow> \<not> running (shared (run_workers js sys))"
  by (induction js arbitrary: sys) (simp_all add: worker_step_not_running)

lemma run_workers_no_workers: "workers sys = [] \<Longrightarrow> run_workers js sys = sys"
  by (induction js arbitrary: sys) (simp_all add: worker_step_def)

section \<open>Facts about the routes\<close>






lemma start_langs:
  "\<not> running (shared sys) \<Longrightarrow>
   source_lang (shared (fst (start a b js sys))) = get_default a (JString ''en'') \<and>
   target_lang (shared (fst (start a b js sys))) = get_default b (JString ''en'')"
  by (simp add: start_def Let_def run_workers_langs)

lemma set_event_shared: "shared (set_event ev sys) = shared sys"
  by (simp add: set_event_def split: option.splits)

lemma stop_running_unfold:
  "running (shared sys) \<Longrightarrow>
   stop js1 js2 sys =
     ((run_workers js2 (set_event (stop_event (shared sys)) (run_workers js1 sys)))
        \<lparr>shared := (shared (run_workers js2 (set_event (stop_event (shared sys)) (run_workers js1 sys))))
           \<lparr>running := False, thread := None, stop_event := None,
            translated_text := ''Stopped.''\<rparr>\<rparr>,
      (Message ''Stopped.'', 200))"
  by (simp add: stop_def Let_def)

lemma stop_langs:
  "source_lang (shared (fst (stop js1 js2 sys))) = source_lang (shared sys) \<and>
   target_lang (shared (fst (stop js1 js2 sys))) = target_lang (shared sys)"
  by (cases "running (shared sys)")
     (simp_all add: stop_running_unfold run_workers_langs set_event_shared, simp add: stop_def)






section \<open>The example systems, evaluated\<close>

lemma codes_en_hi:
  "normalize_sr_lang ''en'' = ''en-US'' \<and> normalize_tr_lang ''en'' = ''en'' \<and>
   normalize_tr_lang ''hi'' = ''hi''"
  by (simp add: lang_eval string_eval)

lemma locals_en_hi:
  "worker_locals \<lparr>w_source = JString ''en'', w_target = JString ''hi'', w_event = e, w_pc = p\<rparr>
     = Inr (''en-US'', ''en'', ''hi'')"
  by (simp add: worker_locals_def code_or_empty_def or_empty_def codes_en_hi)

lemma listening_system_eq:
  "listening_system =
     \<lparr>shared = \<lparr>running = True, thread = Some 0, stop_event = Some 0,
                translated_text = ''Listening... (SR: en-US, TR: en -> hi)'',
                source_lang = JString ''en'', target_lang = JString ''hi''\<rparr>,
      workers = [(0, \<lparr>w_source = JString ''en'', w_target = JString ''hi'', w_event = 0,
                      w_pc = Loop_head\<rparr>)],
      events_set = [], next_id = 1\<rparr>"
  by (simp add: listening_system_def system_eval locals_en_hi)

lemma capturing_system_eq:
  "capturing_system =
     \<lparr>shared = \<lparr>running = True, thread = Some 0, stop_event = Some 0,
                translated_text = ''Listening... (SR: en-US, TR: en -> hi)'',
                source_lang = JString ''en'', target_lang = JString ''hi''\<rparr>,
      workers = [(0, \<lparr>w_source = JString ''en'', w_target = JString ''hi'', w_event = 0,
                      w_pc = In_body\<rparr>)],
      events_set = [], next_id = 1\<rparr>"
  by (simp add: capturing_system_def listening_system_eq worker_step_def)

section \<open>The session invariant\<close>




text \<open>
  A worker launched with a language that is not a string ends by the uncaught exception
  of lines 102-104 and writes nothing: \<open>running\<close> stays true with no worker live.
\<close>

lemma dead_worker_example:
  "running (shared (run [Start (Some (JNumber 5)) (Some (JString ''hi'')) [],
                         Work 0 (Init Initialized)] initial_system)) \<and>
   workers (run [Start (Some (JNumber 5)) (Some (JString ''hi'')) [],
                 Work 0 (Init Initialized)] initial_system) = []"
  by (simp add: system_eval worker_locals_def code_or_empty_def or_empty_def)

section \<open>The routes start, stop and status\<close>

text \<open>
  C2, as stated, fails in its last part. A worker that did not return during the wait
  finishes its pass after \<open>stop\<close> and publishes its translation over \<open>''Stopped.''\<close>: at
  the end of \<open>late_publish_history\<close>, \<open>status\<close> reports the translation.
\<close>

theorem late_publish_counterexample:
  "status (run late_publish_history initial_system) =
     (Status_json False ''namaste'' (JString ''en'') (JString ''hi''), 200)"
  by (simp add: late_publish_history_def system_eval stub_translate_def stub_recognize_def
      locals_en_hi)

text \<open>
  C2, amended: for every call of \<open>stop\<close> while \<open>running\<close> is true, whatever the workers
  do meanwhile, \<open>stop\<close> sets the held event, answers \<open>Stopped.\<close> with 200, and leaves
  \<open>running\<close> false, handle and event null and the text \<open>''Stopped.''\<close>; a \<open>status\<close> on
  the state it leaves reports \<open>running = False\<close> and \<open>''Stopped.''\<close>. Later worker steps
  never make \<open>running\<close> true again, and when no worker is live at the return of \<open>stop\<close>
  every later \<open>status\<close> reports the same. (The length of the wait is not modelled.)
\<close>

theorem stop_forces_stopped:
  assumes "running (shared sys)"
  shows "(\<forall>e. stop_event (shared sys) = Some e \<longrightarrow> e \<in> set (events_set (fst (stop js1 js2 sys)))) \<and>
         snd (stop js1 js2 sys) = (Message ''Stopped.'', 200) \<and>
         \<not> running (shared (fst (stop js1 js2 sys))) \<and>
         thread (shared (fst (stop js1 js2 sys))) = None \<and>
         stop_event (shared (fst (stop js1 js2 sys))) = None \<and>
         translated_text (shared (fst (stop js1 js2 sys))) = ''Stopped.'' \<and>
         status (fst (stop js1 js2 sys)) =
           (Status_json False ''Stopped.'' (source_lang (shared sys)) (target_lang (shared sys)), 200) \<and>
         (\<forall>ws. \<not> running (shared (run_workers ws (fst (stop js1 js2 sys))))) \<and>
         (workers (fst (stop js1 js2 sys)) = [] \<longrightarrow>
            (\<forall>ws. status (run_workers ws (fst (stop js1 js2 sys))) =
               (Status_json False ''Stopped.'' (source_lang (shared sys)) (target_lang (shared sys)), 200)))"
proof -
  let ?sys' = "fst (stop js1 js2 sys)"
  have signalled: "\<forall>e. stop_event (shared sys) = Some e \<longrightarrow> e \<in> set (events_set ?sys')"
    using assms by (simp add: stop_running_unfold run_workers_events set_event_def)
  have reply: "snd (stop js1 js2 sys) = (Message ''Stopped.'', 200)"
    using assms by (simp add: stop_running_unfold)
  have fields: "\<not> running (shared ?sys')" "thread (shared ?sys') = None"
      "stop_event (shared ?sys') = None" "translated_text (shared ?sys') = ''Stopped.''"
    using assms by (simp_all add: stop_running_unfold)
  have report: "status ?sys' =
      (Status_json False ''Stopped.'' (source_lang (shared sys)) (target_lang (shared sys)), 200)"
    using fields stop_langs [of js1 js2 sys] by (simp add: status_def Let_def)
  have stays: "\<forall>ws. \<not> running (shared (run_workers ws ?sys'))"
    using fields(1) by (simp add: run_workers_not_running)
  have quiet: "workers ?sys' = [] \<longrightarrow>
      (\<forall>ws. status (run_workers ws ?sys') =
        (Status_json False ''Stopped.'' (source_lang (shared sys)) (target_lang (shared sys)), 200))"
    using report by (simp add: run_workers_no_workers)
  from signalled reply fields report stays quiet show ?thesis by simp
qed

text \<open>
  C2, the amended claim at \<open>listening_system\<close>, with a worker that sees the event during
  the wait and returns.
\<close>

theorem stop_forces_stopped_witness:
  "running (shared listening_system) \<and> stop_event (shared listening_system) = Some 0 \<and>
   0 \<in> set (events_set (fst (stop [] [(0, Test)] listening_system))) \<and>
   workers (fst (stop [] [(0, Test)] listening_system)) = [] \<and>
   status (fst (stop [] [(0, Test)] listening_system)) =
     (Status_json False ''Stopped.'' (JString ''en'') (JString ''hi''), 200) \<and>
   status (run_workers [(0, Test)] (fst (stop [] [(0, Test)] listening_system))) =
     (Status_json False ''Stopped.'' (JString ''en'') (JString ''hi''), 200)"
proof -
  have live: "running (shared listening_system)"
    and held: "stop_event (shared listening_system) = Some 0"
    and langs: "source_lang (shared listening_system) = JString ''en''"
      "target_lang (shared listening_system) = JString ''hi''"
    by (simp_all add: listening_system_eq)
  have gone: "workers (fst (stop [] [(0, Test)] listening_system)) = []"
    by (simp add: listening_system_eq stop_def set_event_def worker_step_def Let_def)
  from live held langs gone stop_forces_stopped [OF live, of "[]" "[(0, Test)]"]
  show ?thesis by (simp del: run_workers.simps)
qed




text \<open>
  C4: a \<open>stop\<close> that finds \<open>running\<close> false answers \<open>Not running\<close> with status 200 and
  leaves the whole process, the text included, as it was.
\<close>

theorem stop_when_not_running:
  "\<not> running (shared sys) \<Longrightarrow> stop js1 js2 sys = (sys, (Message ''Not running'', 200))"
  by (simp add: stop_def)

text \<open>C4 at the initial process.\<close>

theorem stop_when_not_running_witness:
  "\<not> running (shared initial_system) \<and>
   stop [(0, Test)] [(0, Test)] initial_system = (initial_system, (Message ''Not running'', 200))"
proof -
  have idle: "\<not> running (shared initial_system)"
    by (simp add: initial_system_def initial_state_def)
  from idle stop_when_not_running [OF idle] show ?thesis by simp
qed

text \<open>
  C10, as stated, fails: a \<open>start\<close> that finds the session running stores nothing. After
  \<open>start(en, hi)\<close>, \<open>start(gu, ko)\<close> and \<open>stop\<close>, \<open>status\<close> reports \<open>en\<close> and \<open>hi\<close>.
\<close>

theorem restart_counterexample:
  "status (run restart_history initial_system) =
     (Status_json False ''Stopped.'' (JString ''en'') (JString ''hi''), 200)"
  by (simp add: restart_history_def system_eval)

text \<open>
  C10, amended: \<open>stop\<close> leaves \<open>source_lang\<close> and \<open>target_lang\<close> as they were. So for
  every \<open>start\<close> that finds \<open>running\<close> false, followed by \<open>stop\<close>, with any worker steps
  before and after the \<open>stop\<close>, a later \<open>status\<close> reports the two languages as they were
  passed to that \<open>start\<close> (an absent one as \<open>en\<close>), not normalized and not reset to
  null: whatever JSON value was passed is the value reported. A \<open>start\<close> that finds
  \<open>running\<close> true leaves the two languages as they were.
\<close>

theorem stop_keeps_languages:
  "source_lang (shared (fst (stop js1 js2 sys))) = source_lang (shared sys) \<and>
   target_lang (shared (fst (stop js1 js2 sys))) = target_lang (shared sys) \<and>
   (running (shared sys) \<longrightarrow>
      source_lang (shared (fst (start a b js sys))) = source_lang (shared sys) \<and>
      target_lang (shared (fst (start a b js sys))) = target_lang (shared sys)) \<and>
   (\<not> running (shared sys) \<longrightarrow>
      fst (status (run_workers ws' (fst (stop js1 js2 (run_workers ws (fst (start a b js sys))))))) =
        Status_json
          (running (shared (run_workers ws'
             (fst (stop js1 js2 (run_workers ws (fst (start a b js sys))))))))
          (translated_text (shared (run_workers ws'
             (fst (stop js1 js2 (run_workers ws (fst (start a b js sys))))))))
          (get_default a (JString ''en'')) (get_default b (JString ''en'')))"
proof -
  have noop: "running (shared sys) \<longrightarrow> fst (start a b js sys) = sys"
    by (simp add: start_def)
  then show ?thesis
    by (auto simp: status_def Let_def stop_langs run_workers_langs start_langs)
qed

text \<open>C10, the amended claim from the initial process, with an upper-case code.\<close>

theorem stop_keeps_languages_witness:
  "\<not> running (shared initial_system) \<and>
   fst (status (run_workers []
     (fst (stop [] [] (run_workers [(0, Init Initialized)]
       (fst (start (Some (JString ''GU'')) (Some (JString ''hi'')) [] initial_system))))))) =
     Status_json False ''Stopped.'' (JString ''GU'') (JString ''hi'')"
proof -
  have idle: "\<not> running (shared initial_system)"
    by (simp add: initial_system_def initial_state_def)
  have live: "running (shared (run_workers [(0, Init Initialized)]
       (fst (start (Some (JString ''GU'')) (Some (JString ''hi'')) [] initial_system))))"
    using run_workers_langs by (simp add: system_eval split: sum.splits prod.splits)
  from idle stop_running_unfold [OF live, of "[]" "[]"]
    stop_keeps_languages [of "[]" "[]" initial_system "Some (JString ''GU'')"
      "Some (JString ''hi'')" "[]" "[]" "[(0, Init Initialized)]"]
  show ?thesis by (simp add: get_default_def)
qed

section \<open>The worker's pass and its exit\<close>

text \<open>
  C5: in a pass of worker \<open>w\<close> that recognized a non-empty transcript, when the
  translation with the normalized source and target codes succeeds, its result becomes
  the text; when it fails and the retry with source \<open>auto\<close> succeeds, the retry's result
  becomes the text; when both fail, the text becomes the transcript followed by the note
  \<open>(translation unavailable: ...)\<close> with the retry's message. Nothing else in the state
  changes. (\<open>source\<close> and \<open>target\<close> are the worker's two languages as the normalizers
  receive them: every worker in the loop has such.)
\<close>

theorem translation_published:
  assumes "map_of (workers sys) tid = Some w" and "w_pc w = In_body"
    and "code_or_empty (w_source w) = Inr source" and "code_or_empty (w_target w) = Inr target"
    and "recognize_google (normalize_sr_lang source) = Transcript transcript"
    and "transcript \<noteq> []"
  shows "(gt (normalize_tr_lang source) (normalize_tr_lang target) transcript = Inr r
            \<longrightarrow> shared (worker_step tid (Body gt Audio recognize_google) sys)
                 = (shared sys)\<lparr>translated_text := r\<rparr>) \<and>
         (gt (normalize_tr_lang source) (normalize_tr_lang target) transcript = Inl e \<and>
          gt ''auto'' (normalize_tr_lang target) transcript = Inr r
            \<longrightarrow> shared (worker_step tid (Body gt Audio recognize_google) sys)
                 = (shared sys)\<lparr>translated_text := r\<rparr>) \<and>
         (gt (normalize_tr_lang source) (normalize_tr_lang target) transcript = Inl e \<and>
          gt ''auto'' (normalize_tr_lang target) transcript = Inl e'
            \<longrightarrow> shared (worker_step tid (Body gt Audio recognize_google) sys)
                 = (shared sys)\<lparr>translated_text :=
                       transcript @ '' (translation unavailable: '' @ e' @ '')''\<rparr>)"
  using assms by (simp add: worker_step_def worker_locals_def loop_body_def translate_block_def)

text \<open>
  C5 at \<open>capturing_system\<close>, transcript \<open>hello\<close>, with a translator that succeeds, one
  that succeeds only with source \<open>auto\<close>, and one that always fails.
\<close>

theorem translation_published_witness:
  "translated_text (shared (worker_step 0 (Body stub_translate Audio stub_recognize)
     capturing_system)) = ''namaste'' \<and>
   fallback_translate ''en'' ''hi'' ''hello'' = Inl ''no such pair'' \<and>
   translated_text (shared (worker_step 0 (Body fallback_translate Audio stub_recognize)
     capturing_system)) = ''namaste'' \<and>
   translated_text (shared (worker_step 0 (Body failing_translate Audio stub_recognize)
     capturing_system)) = ''hello (translation unavailable: offline)''"
proof -
  define w where "w = \<lparr>w_source = JString ''en'', w_target = JString ''hi'', w_event = 0,
    w_pc = In_body\<rparr>"
  have found: "map_of (workers capturing_system) 0 = Some w"
    and inside: "w_pc w = In_body"
    by (simp_all add: capturing_system_eq w_def)
  have langs: "code_or_empty (w_source w) = Inr ''en''" "code_or_empty (w_target w) = Inr ''hi''"
    by (simp_all add: w_def code_or_empty_def or_empty_def)
  have heard: "stub_recognize (normalize_sr_lang ''en'') = Transcript ''hello''"
    by (simp add: stub_recognize_def)
  have nonempty: "''hello'' \<noteq> []" by simp
  have codes: "normalize_tr_lang ''en'' = ''en''" "normalize_tr_lang ''hi'' = ''hi''"
    by (simp_all add: codes_en_hi)
  have first: "stub_translate ''en'' ''hi'' ''hello'' = Inr ''namaste''"
    by (simp add: stub_translate_def)
  have second: "fallback_translate ''en'' ''hi'' ''hello'' = Inl ''no such pair''"
      "fallback_translate ''auto'' ''hi'' ''hello'' = Inr ''namaste''"
    by (simp_all add: fallback_translate_def)
  have third: "failing_translate ''en'' ''hi'' ''hello'' = Inl ''offline''"
      "failing_translate ''auto'' ''hi'' ''hello'' = Inl ''offline''"
    by (simp_all add: failing_translate_def)
  from first second third
    translation_published [where recognize_google = stub_recognize and gt = stub_translate
      and r = "''namaste''", OF found inside langs heard nonempty]
    translation_published [where recognize_google = stub_recognize and gt = fallback_translate
      and r = "''namaste''" and e = "''no such pair''", OF found inside langs heard nonempty]
    translation_published [where recognize_google = stub_recognize and gt = failing_translate
      and e = "''offline''" and e' = "''offline''", OF found inside langs heard nonempty]
  show ?thesis by (simp add: codes)
qed

text \<open>
  C8: in a pass of worker \<open>w\<close> in which the recognizer raises \<open>UnknownValueError\<close>, the
  state is left as it was, the text included, the worker is back at the loop test, and
  the pass has slept for no time.
\<close>

theorem no_speech_skipped:
  assumes "map_of (workers sys) tid = Some w" and "w_pc w = In_body"
    and "code_or_empty (w_source w) = Inr source" and "code_or_empty (w_target w) = Inr target"
    and "recognize_google (normalize_sr_lang source) = UnknownValueError"
  shows "shared (worker_step tid (Body gt Audio recognize_google) sys) = shared sys \<and>
         map_of (workers (worker_step tid (Body gt Audio recognize_google) sys)) tid
           = Some (w\<lparr>w_pc := Loop_head\<rparr>) \<and>
         snd (loop_body gt Audio recognize_google (normalize_sr_lang source)
                (normalize_tr_lang source) (normalize_tr_lang target) (shared sys)) = 0"
  using assms by (simp add: worker_step_def worker_locals_def loop_body_def map_of_set_pc)

text \<open>C8 at \<open>capturing_system\<close>, with a recognizer that understands nothing.\<close>

theorem no_speech_skipped_witness:
  "map_of (workers capturing_system) 0
     = Some \<lparr>w_source = JString ''en'', w_target = JString ''hi'', w_event = 0, w_pc = In_body\<rparr> \<and>
   shared (worker_step 0 (Body stub_translate Audio silent_recognize) capturing_system)
     = shared capturing_system \<and>
   map_of (workers (worker_step 0 (Body stub_translate Audio silent_recognize) capturing_system)) 0
     = Some \<lparr>w_source = JString ''en'', w_target = JString ''hi'', w_event = 0, w_pc = Loop_head\<rparr>"
proof -
  define w where "w = \<lparr>w_source = JString ''en'', w_target = JString ''hi'', w_event = 0,
    w_pc = In_body\<rparr>"
  have found: "map_of (workers capturing_system) 0 = Some w"
    and inside: "w_pc w = In_body"
    by (simp_all add: capturing_system_eq w_def)
  have langs: "code_or_empty (w_source w) = Inr ''en''" "code_or_empty (w_target w) = Inr ''hi''"
    by (simp_all add: w_def code_or_empty_def or_empty_def)
  have silent: "silent_recognize (normalize_sr_lang ''en'') = UnknownValueError"
    by (simp add: silent_recognize_def)
  from found no_speech_skipped [where recognize_google = silent_recognize
      and gt = stub_translate, OF found inside langs silent]
  show ?thesis by (simp add: w_def)
qed

text \<open>
  C6, as stated, fails in its last part. The exit publishes \<open>''Stopped.''\<close> only over an
  empty text. A worker that sees its event right after publishing its listening text
  returns with the three lifecycle fields cleared and the listening text in place.
\<close>

theorem exit_keeps_text_counterexample:
  "translated_text (shared (worker_step 0 Test (set_event (Some 0) listening_system)))
     = ''Listening... (SR: en-US, TR: en -> hi)'' \<and>
   \<not> running (shared (worker_step 0 Test (set_event (Some 0) listening_system))) \<and>
   workers (worker_step 0 Test (set_event (Some 0) listening_system)) = []"
  by (simp add: listening_system_eq set_event_def worker_step_def clean_exit_def Let_def)

text \<open>
  C6, amended: when worker \<open>w\<close> finds its event set at the loop test, it returns, and in
  one step under the lock \<open>running\<close> becomes false and the handle and the event null;
  the text becomes \<open>''Stopped.''\<close> when it is empty and is left as it is otherwise.
\<close>

theorem worker_exit:
  assumes "map_of (workers sys) tid = Some w" and "w_pc w = Loop_head"
    and "w_event w \<in> set (events_set sys)"
  shows "shared (worker_step tid Test sys) =
           (shared sys)\<lparr>running := False, thread := None, stop_event := None,
              translated_text := (if translated_text (shared sys) = [] then ''Stopped.''
                                  else translated_text (shared sys))\<rparr> \<and>
         map_of (workers (worker_step tid Test sys)) tid = None"
  using assms by (simp add: worker_step_def clean_exit_def Let_def map_of_filter_ne)

text \<open>C6, the amended claim at \<open>emptied_system\<close>, where the text is empty.\<close>

theorem worker_exit_witness:
  "translated_text (shared emptied_system) = [] \<and>
   0 \<in> set (events_set emptied_system) \<and>
   shared (worker_step 0 Test emptied_system) =
     \<lparr>running = False, thread = None, stop_event = None, translated_text = ''Stopped.'',
      source_lang = JString ''en'', target_lang = JString ''hi''\<rparr>"
proof -
  define w where "w = \<lparr>w_source = JString ''en'', w_target = JString ''hi'', w_event = 0,
    w_pc = Loop_head\<rparr>"
  have emptied: "emptied_system =
     \<lparr>shared = \<lparr>running = True, thread = Some 0, stop_event = Some 0, translated_text = [],
                source_lang = JString ''en'', target_lang = JString ''hi''\<rparr>,
      workers = [(0, w)], events_set = [0], next_id = 1\<rparr>"
    by (simp add: emptied_system_def capturing_system_eq set_event_def worker_step_def
        locals_en_hi loop_body_def translate_block_def stub_recognize_def empty_translate_def
        w_def)
  have found: "map_of (workers emptied_system) 0 = Some w"
    and head: "w_pc w = Loop_head"
    and seen: "w_event w \<in> set (events_set emptied_system)"
    by (simp_all add: emptied w_def)
  from seen worker_exit [OF found head seen] show ?thesis
    by (simp add: emptied w_def)
qed

section \<open>Static files\<close>

lemmas path_eval =
  resolve_links_def has_nul_def joinpath_def parts_def relative_to_def example_root_def

text \<open>
  C9, as stated, fails: the three API names are answered 404 before the path is looked
  at. In the example file system \<^verbatim>\<open>start\<close> is a link out of the root, and the
  answer to it is 404, not 403.
\<close>

theorem reserved_name_counterexample:
  "resolve_links example_links (joinpath example_root ''start'') = Inr [''etc'', ''passwd''] \<and>
   \<not> relative_to [''etc'', ''passwd''] example_root \<and>
   serve_static_file (resolve_links example_links) example_is_file example_root ''start''
     = Abort 404"
  by (simp add: serve_static_file_def path_eval example_links_def)

text \<open>
  C9, amended: for every request path other than \<^verbatim>\<open>start\<close>, \<^verbatim>\<open>stop\<close> and
  \<^verbatim>\<open>status\<close> whose target \<^verbatim>\<open>resolve()\<close> places outside the serving root, the
  answer is 403; the three names are answered 404; a path on which \<^verbatim>\<open>resolve()\<close>
  raises, or \<^verbatim>\<open>is_file()\<close> on its target inside the root, is answered with that
  uncaught exception (status 500); and a file is sent only for a path, not one of the
  three names, whose resolved target lies inside the root, is a regular file and has an
  allow-listed extension. The file then sent is the regular file that
  \<^verbatim>\<open>send_from_directory\<close> finds under the raw name, normalised as text; that this
  file is the resolved target, or lies inside the root, is not part of the statement.
\<close>

theorem static_file_guard:
  "(filename \<notin> {''start'', ''stop'', ''status''} \<and>
    resolve (joinpath FRONTEND_DIR filename) = Inr target \<and> \<not> relative_to target FRONTEND_DIR
      \<longrightarrow> serve_static_file resolve is_file FRONTEND_DIR filename = Abort 403) \<and>
   (filename \<in> {''start'', ''stop'', ''status''}
      \<longrightarrow> serve_static_file resolve is_file FRONTEND_DIR filename = Abort 404) \<and>
   (filename \<notin> {''start'', ''stop'', ''status''} \<and>
    resolve (joinpath FRONTEND_DIR filename) = Inl e
      \<longrightarrow> serve_static_file resolve is_file FRONTEND_DIR filename = Uncaught e) \<and>
   (filename \<notin> {''start'', ''stop'', ''status''} \<and>
    resolve (joinpath FRONTEND_DIR filename) = Inr target \<and> relative_to target FRONTEND_DIR \<and>
    is_file target = Inl e
      \<longrightarrow> serve_static_file resolve is_file FRONTEND_DIR filename = Uncaught e) \<and>
   (serve_static_file resolve is_file FRONTEND_DIR filename = Send_file p
      \<longrightarrow> filename \<notin> {''start'', ''stop'', ''status''} \<and>
          (\<exists>t. resolve (joinpath FRONTEND_DIR filename) = Inr t \<and> relative_to t FRONTEND_DIR \<and>
               is_file t = Inr True \<and> suffix t \<in> set ALLOWED_STATIC_EXTS) \<and>
          safe_join FRONTEND_DIR filename = Some p \<and> is_file p = Inr True)"
  by (auto simp add: serve_static_file_def send_from_directory_def
      split: if_splits sum.splits option.splits)

text \<open>
  C9, the amended claim in the example file system: a path that climbs out of the root,
  an API name, a name with a NUL byte, a style sheet under a file system whose
  \<^verbatim>\<open>is_file\<close> raises, and the style sheet inside the root.
\<close>

theorem static_file_guard_witness:
  "resolve_links example_links (joinpath example_root ''../secret.css'')
     = Inr [''srv'', ''secret.css''] \<and>
   \<not> relative_to [''srv'', ''secret.css''] example_root \<and>
   serve_static_file (resolve_links example_links) example_is_file example_root ''../secret.css''
     = Abort 403 \<and>
   serve_static_file (resolve_links example_links) example_is_file example_root ''status''
     = Abort 404 \<and>
   serve_static_file (resolve_links example_links) example_is_file example_root
     [CHR ''a'', CHR 0x00] = Uncaught ValueError \<and>
   serve_static_file (resolve_links example_links) failing_is_file example_root ''css/site.css''
     = Uncaught OSError \<and>
   serve_static_file (resolve_links example_links) example_is_file example_root ''css/site.css''
     = Send_file [''srv'', ''app'', ''css'', ''site.css''] \<and>
   suffix [''srv'', ''app'', ''css'', ''site.css''] = ''.css''"
proof -
  let ?serve = "serve_static_file (resolve_links example_links)"
  have outside: "''../secret.css'' \<notin> {''start'', ''stop'', ''status''}"
      "resolve_links example_links (joinpath example_root ''../secret.css'')
         = Inr [''srv'', ''secret.css'']"
      "\<not> relative_to [''srv'', ''secret.css''] example_root"
    by (simp_all add: path_eval example_links_def)
  have reserved: "''status'' \<in> {''start'', ''stop'', ''status''}" by simp
  have nul: "[CHR ''a'', CHR 0x00] \<notin> {''start'', ''stop'', ''status''}"
      "resolve_links example_links (joinpath example_root [CHR ''a'', CHR 0x00]) = Inl ValueError"
    by (simp_all add: path_eval)
  have sheet: "''css/site.css'' \<notin> {''start'', ''stop'', ''status''}"
      "resolve_links example_links (joinpath example_root ''css/site.css'')
         = Inr [''srv'', ''app'', ''css'', ''site.css'']"
      "relative_to [''srv'', ''app'', ''css'', ''site.css''] example_root"
      "failing_is_file [''srv'', ''app'', ''css'', ''site.css''] = Inl OSError"
    by (simp_all add: path_eval example_links_def failing_is_file_def)
  have ext: "suffix [''srv'', ''app'', ''css'', ''site.css''] = ''.css''"
    by (simp add: suffix_def rfind_dot_def)
  have joined: "safe_join example_root ''css/site.css'' = Some [''srv'', ''app'', ''css'', ''site.css'']"
    by (simp add: safe_join_def example_root_def)
  have served: "?serve example_is_file example_root ''css/site.css''
      = Send_file [''srv'', ''app'', ''css'', ''site.css'']"
    unfolding serve_static_file_def send_from_directory_def sheet(2) joined
    by (simp add: ext relative_to_def example_root_def example_is_file_def ALLOWED_STATIC_EXTS_def)
  from outside reserved nul sheet ext served
    static_file_guard [where filename = "''../secret.css''" and FRONTEND_DIR = example_root
      and resolve = "resolve_links example_links" and is_file = example_is_file
      and target = "[''srv'', ''secret.css'']"]
    static_file_guard [where filename = "''status''" and FRONTEND_DIR = example_root
      and resolve = "resolve_links example_links" and is_file = example_is_file]
    static_file_guard [where filename = "[CHR ''a'', CHR 0x00]" and FRONTEND_DIR = example_root
      and resolve = "resolve_links example_links" and is_file = example_is_file
      and e = ValueError]
    static_file_guard [where filename = "''css/site.css''" and FRONTEND_DIR = example_root
      and resolve = "resolve_links example_links" and is_file = failing_is_file
      and target = "[''srv'', ''app'', ''css'', ''site.css'']" and e = OSError]
    static_file_guard [where filename = "''css/site.css''" and FRONTEND_DIR = example_root
      and resolve = "resolve_links example_links" and is_file = example_is_file
      and p = "[''srv'', ''app'', ''css'', ''site.css'']"]
  show ?thesis by simp
qed

text \<open>
  What the last sentence of the amended claim leaves open. In the second example file
  system the path \<^verbatim>\<open>link/../secret.css\<close> resolves to the regular file
  \<^verbatim>\<open>/srv/app/sub/secret.css\<close> inside the root and passes the guard; the file sent
  is \<^verbatim>\<open>/srv/app/secret.css\<close>, a link to \<^verbatim>\<open>/etc/passwd\<close>.
\<close>

lemma guarded_target_is_not_the_file_sent:
  "resolve_links detour_links (joinpath example_root ''link/../secret.css'')
     = Inr [''srv'', ''app'', ''sub'', ''secret.css''] \<and>
   serve_static_file (resolve_links detour_links) detour_is_file example_root ''link/../secret.css''
     = Send_file [''srv'', ''app'', ''secret.css''] \<and>
   resolve_links detour_links [''srv'', ''app'', ''secret.css''] = Inr [''etc'', ''passwd'']"
proof -
  have target: "resolve_links detour_links (joinpath example_root ''link/../secret.css'')
      = Inr [''srv'', ''app'', ''sub'', ''secret.css'']"
    by (simp add: path_eval detour_links_def)
  have ext: "suffix [''srv'', ''app'', ''sub'', ''secret.css''] = ''.css''"
    by (simp add: suffix_def rfind_dot_def)
  have joined: "safe_join example_root ''link/../secret.css'' = Some [''srv'', ''app'', ''secret.css'']"
    by (simp add: safe_join_def example_root_def)
  have sent: "serve_static_file (resolve_links detour_links) detour_is_file example_root
      ''link/../secret.css'' = Send_file [''srv'', ''app'', ''secret.css'']"
    unfolding serve_static_file_def send_from_directory_def target joined
    by (simp add: ext relative_to_def example_root_def detour_is_file_def ALLOWED_STATIC_EXTS_def)
  have opened: "resolve_links detour_links [''srv'', ''app'', ''secret.css''] = Inr [''etc'', ''passwd'']"
    by (simp add: resolve_links_def has_nul_def detour_links_def)
  from target sent opened show ?thesis by simp
qed

end
